theory Spec2Isabelle
  imports Main
begin

section \<open>Drop countdown, drop status and notify form (assets/drop-countdown.js)\<close>

subsection \<open>Dates and statuses\<close>

text \<open>
  A JavaScript \<open>Date\<close> holds a time value: an integral number of milliseconds since
  the epoch, or NaN when the string given to \<open>new Date\<close> could not be parsed
  (an "Invalid Date"). Time values are bounded by 8.64e15 in magnitude, so they, and the
  difference of one of them and the wall clock, are integers that a double holds exactly;
  they are modelled as \<open>int\<close>. \<open>new Date()\<close>, the wall clock, is always valid
  and is passed to every operation that reads it as the argument \<open>now\<close>.
\<close>

datatype jsdate = Date int | InvalidDate

text \<open>
  \<open>now < d\<close> for a valid \<open>now\<close> and a Date \<open>d\<close>: the comparison of the two time
  values, false when one of them is NaN.
\<close>

fun date_lt :: "int \<Rightarrow> jsdate \<Rightarrow> bool" where
  "date_lt now (Date t) = (now < t)"
| "date_lt now InvalidDate = False"

text \<open>The three status strings \<open>'upcoming'\<close>, \<open>'live'\<close> and \<open>'ended'\<close>.\<close>

datatype status = upcoming | live | ended

fun status_name :: "status \<Rightarrow> string" where
  "status_name upcoming = ''upcoming''"
| "status_name live = ''live''"
| "status_name ended = ''ended''"

text \<open>
  The fields \<open>startDate\<close> and \<open>endDate\<close> that both custom elements set in their
  constructors and read from their \<open>data-start-date\<close> and \<open>data-end-date\<close> attributes:
  \<open>None\<close> is \<open>null\<close>. A Date object is truthy whatever its time value, so
  \<open>this.startDate && ...\<close> tests for \<open>null\<close> only.
\<close>

record DropWindow =
  startDate :: "jsdate option"
  endDate :: "jsdate option"

subsection \<open>DropCountdown\<close>

text \<open>
  The element's own fields, followed by what it acts on: the class
  \<open>drop-countdown--ended\<close> of its class list, the \<open>drop-status-change\<close> events it
  has dispatched (the \<open>detail.status\<close> of each, oldest first) and the window's interval
  timers (the ids of the active ones, and the last id that \<open>setInterval\<close> handed out;
  ids are positive and never reused).
  Each of the four digit slots is \<open>None\<close> when the field is undefined or
  \<open>querySelector\<close> found no element, and otherwise the \<open>textContent\<close> of the element.
\<close>

record DropCountdown = DropWindow +
  intervalId :: "nat option"
  daysEl :: "string option"
  hoursEl :: "string option"
  minutesEl :: "string option"
  secondsEl :: "string option"
  endedClass :: bool
  events :: "status list"
  timers :: "nat set"
  lastTimerId :: nat

text \<open>What \<open>connectedCallback\<close> reads from the markup: the two data attributes
  (\<open>None\<close> when the attribute is missing or empty, otherwise the Date parsed from it) and
  the result of the four \<open>querySelector\<close> calls.\<close>

record countdown_markup =
  data_startDate :: "jsdate option"
  data_endDate :: "jsdate option"
  days_slot :: "string option"
  hours_slot :: "string option"
  minutes_slot :: "string option"
  seconds_slot :: "string option"

definition setInterval :: "DropCountdown \<Rightarrow> DropCountdown" where
  "setInterval s =
     (let i = Suc (lastTimerId s)
      in s\<lparr>intervalId := Some i, timers := insert i (timers s), lastTimerId := i\<rparr>)"

text \<open>Clearing an id that names no active timer does nothing.\<close>

definition clearInterval :: "nat \<Rightarrow> DropCountdown \<Rightarrow> DropCountdown" where
  "clearInterval i s = s\<lparr>timers := timers s - {i}\<rparr>"

text \<open>\<open>if (this.intervalId)\<close>: \<open>null\<close> and \<open>0\<close> are falsy.\<close>

fun truthy_id :: "nat option \<Rightarrow> bool" where
  "truthy_id None = False"
| "truthy_id (Some i) = (i \<noteq> 0)"

text \<open>\<open>this.d && now < this.d\<close> for one of the two date fields.\<close>

fun before :: "int \<Rightarrow> jsdate option \<Rightarrow> bool" where
  "before now None = False"
| "before now (Some d) = date_lt now d"

fun getStatus :: "DropCountdown \<Rightarrow> int \<Rightarrow> status" where
  "getStatus s now =
     (if before now (startDate s) then upcoming
      else if before now (endDate s) then live
      else ended)"

subsubsection \<open>Rendering\<close>

text \<open>
  The numbers handed to \<open>setValues\<close>: an integer, or NaN (which is what every
  \<open>Math.floor\<close> of \<open>update\<close> yields when the target's time value is NaN).
\<close>

datatype number = Num int | NaN

definition digit_char :: "nat \<Rightarrow> char" where
  "digit_char d = ''0123456789'' ! d"

fun nat_toString :: "nat \<Rightarrow> string" where
  "nat_toString n =
     (if n < 10 then [digit_char n] else nat_toString (n div 10) @ [digit_char (n mod 10)])"

declare nat_toString.simps [simp del]

fun toString :: "number \<Rightarrow> string" where
  "toString NaN = ''NaN''"
| "toString (Num n) =
     (if n < 0 then CHR ''-'' # nat_toString (nat (- n)) else nat_toString (nat n))"

text \<open>\<open>padStart\<close> with a filler of one character: nothing is added to a string that
  already has the target length or more.\<close>

definition padStart :: "nat \<Rightarrow> char \<Rightarrow> string \<Rightarrow> string" where
  "padStart n c str = replicate (n - length str) c @ str"

definition padZero :: "number \<Rightarrow> string" where
  "padZero num = padStart 2 (CHR ''0'') (toString num)"

definition animateValue :: "string \<Rightarrow> string \<Rightarrow> string" where
  "animateValue el newValue = (if el \<noteq> newValue then newValue else el)"

definition setValues ::
  "number \<Rightarrow> number \<Rightarrow> number \<Rightarrow> number \<Rightarrow> DropCountdown \<Rightarrow> DropCountdown" where
  "setValues days hours minutes seconds s =
     s\<lparr>daysEl := map_option (\<lambda>el. animateValue el (padZero days)) (daysEl s),
       hoursEl := map_option (\<lambda>el. animateValue el (padZero hours)) (hoursEl s),
       minutesEl := map_option (\<lambda>el. animateValue el (padZero minutes)) (minutesEl s),
       secondsEl := map_option (\<lambda>el. animateValue el (padZero seconds)) (secondsEl s)\<rparr>"

definition showEnded :: "DropCountdown \<Rightarrow> DropCountdown" where
  "showEnded s =
     (let s1 = (case intervalId s of
                  None \<Rightarrow> s
                | Some i \<Rightarrow>
                    if truthy_id (Some i) then (clearInterval i s)\<lparr>intervalId := None\<rparr> else s)
      in setValues (Num 0) (Num 0) (Num 0) (Num 0) (s1\<lparr>endedClass := True\<rparr>))"

subsubsection \<open>The tick\<close>

definition dispatchEvent :: "status \<Rightarrow> DropCountdown \<Rightarrow> DropCountdown" where
  "dispatchEvent st s = s\<lparr>events := events s @ [st]\<rparr>"

text \<open>
  \<open>diff\<close> is positive where it is divided, so \<open>Math.floor\<close> of the quotient and
  JavaScript's \<open>%\<close> are \<open>div\<close> and \<open>mod\<close>.
\<close>

definition update :: "DropCountdown \<Rightarrow> int \<Rightarrow> DropCountdown" where
  "update s now =
     (let status = getStatus s now in
      if status \<noteq> upcoming \<and> status \<noteq> live then showEnded s
      else
        (case (if status = upcoming then startDate s else endDate s) of
           None \<Rightarrow> showEnded s
         | Some InvalidDate \<Rightarrow> setValues NaN NaN NaN NaN s
         | Some (Date target) \<Rightarrow>
             (let diff = target - now in
              if diff \<le> 0 then dispatchEvent (if status = upcoming then live else ended) s
              else
                setValues
                  (Num (diff div (1000 * 60 * 60 * 24)))
                  (Num ((diff mod (1000 * 60 * 60 * 24)) div (1000 * 60 * 60)))
                  (Num ((diff mod (1000 * 60 * 60)) div (1000 * 60)))
                  (Num ((diff mod (1000 * 60)) div 1000))
                  s)))"

subsubsection \<open>Life cycle\<close>

text \<open>The constructor, in a window whose timers are \<open>ts\<close> and whose last timer id
  is \<open>l\<close>.\<close>

definition new_DropCountdown :: "nat set \<Rightarrow> nat \<Rightarrow> DropCountdown" where
  "new_DropCountdown ts l =
     \<lparr>startDate = None, endDate = None, intervalId = None,
      daysEl = None, hoursEl = None, minutesEl = None, secondsEl = None,
      endedClass = False, events = [], timers = ts, lastTimerId = l\<rparr>"

definition connectedCallback :: "DropCountdown \<Rightarrow> countdown_markup \<Rightarrow> int \<Rightarrow> DropCountdown" where
  "connectedCallback s m now =
     (let s1 = s\<lparr>startDate := data_startDate m, endDate := data_endDate m\<rparr> in
      if startDate s1 = None \<and> endDate s1 = None then s1
      else
        (let s2 = s1\<lparr>daysEl := days_slot m, hoursEl := hours_slot m,
                      minutesEl := minutes_slot m, secondsEl := seconds_slot m\<rparr>
         in setInterval (update s2 now)))"

definition disconnectedCallback :: "DropCountdown \<Rightarrow> DropCountdown" where
  "disconnectedCallback s =
     (case intervalId s of
        None \<Rightarrow> s
      | Some i \<Rightarrow> if truthy_id (Some i) then clearInterval i s else s)"

text \<open>
  The interval \<open>i\<close> calls \<open>update\<close> each time it fires, and fires only while it is
  active. \<open>run\<close> lets it fire at each wall-clock reading of a list, in order.
\<close>

definition tick :: "nat \<Rightarrow> DropCountdown \<Rightarrow> int \<Rightarrow> DropCountdown" where
  "tick i s now = (if i \<in> timers s then update s now else s)"

fun run :: "nat \<Rightarrow> DropCountdown \<Rightarrow> int list \<Rightarrow> DropCountdown" where
  "run i s [] = s"
| "run i s (now # nows) = run i (tick i s now) nows"

subsection \<open>DropStatus\<close>

text \<open>
  The elements of the document that \<open>updateStatus\<close> looks up, each \<open>None\<close> when
  \<open>querySelector\<close> finds none: the badge \<open>.drop-status\<close> (its class name and the
  \<open>textContent\<close> of its \<open>.drop-status__text\<close> child, if it has one), the button
  \<open>.drop-add-button\<close> (with whether its class list holds
  \<open>drop-add-button--disabled\<close>) and the \<open>style.display\<close> of \<open>.drop-notify\<close>.
\<close>

record badge =
  className :: string
  textEl :: "string option"

record button =
  disabled :: bool
  textContent :: string

record add_button = button +
  disabledClass :: bool

record page =
  statusBadge :: "badge option"
  addButton :: "add_button option"
  notifySection :: "string option"

text \<open>The element's \<open>data-status\<close> attribute is \<open>None\<close> until it is set.\<close>

record DropStatus = DropWindow +
  data_status :: "status option"

fun textMap :: "status \<Rightarrow> string" where
  "textMap upcoming = ''Coming Soon''"
| "textMap live = ''Drop Live''"
| "textMap ended = ''Drop Ended''"

definition updateStatus :: "DropStatus \<Rightarrow> page \<Rightarrow> int \<Rightarrow> DropStatus \<times> page" where
  "updateStatus d p now =
     (let status =
            (if before now (startDate d) then upcoming
             else if before now (endDate d) then live
             else ended);
          d1 = d\<lparr>data_status := Some status\<rparr>;
          p1 = p\<lparr>statusBadge :=
                    map_option
                      (\<lambda>b. b\<lparr>className := ''drop-status drop-status--'' @ status_name status,
                              textEl := map_option (\<lambda>_. textMap status) (textEl b)\<rparr>)
                      (statusBadge p)\<rparr>;
          p2 = p1\<lparr>addButton :=
                     map_option
                       (\<lambda>b. if status = live
                             then b\<lparr>disabled := False, disabledClass := False,
                                    textContent := ''Add to Cart''\<rparr>
                             else b\<lparr>disabled := True, disabledClass := True,
                                    textContent :=
                                      (if status = upcoming then ''Coming Soon'' else ''Sold Out'')\<rparr>)
                       (addButton p1)\<rparr>;
          p3 = p2\<lparr>notifySection :=
                     map_option (\<lambda>_. if status = live then ''none'' else ''flex'')
                       (notifySection p2)\<rparr>
      in (d1, p3))"

subsection \<open>DropNotify\<close>

text \<open>
  The elements \<open>connectedCallback\<close> looked up (\<open>None\<close>: not found): the
  \<open>style.display\<close> of the form and of the success message, the value of the email input
  and the submit button; then the lines written with \<open>console.error\<close> and the form data
  of each POST to \<open>/contact\<close>.
\<close>

record DropNotify =
  form :: "string option"
  input :: "string option"
  submitButton :: "button option"
  successMessage :: "string option"
  console :: "string list"
  posted :: "(string \<times> string) list list"

text \<open>
  How the promise of \<open>fetch\<close> settles: fulfilled with a response of some HTTP status, or
  rejected (the request could not be made or answered).
\<close>

datatype fetch_outcome = Resolved nat | Rejected

text \<open>
  Writing a property of \<open>this.button\<close> when it is \<open>null\<close> throws, before the
  \<open>try\<close>. \<open>handleSubmit\<close> is given how its \<open>fetch\<close> settles and returns the state
  once the handler has run to its end; \<open>preventDefault\<close> touches none of the fields.
\<close>

datatype error = TypeError

definition handleSubmit :: "DropNotify \<Rightarrow> fetch_outcome \<Rightarrow> error + DropNotify" where
  "handleSubmit n outcome =
     (case input n of
        None \<Rightarrow> Inr n
      | Some email \<Rightarrow>
          if email = [] then Inr n
          else
            (case submitButton n of
               None \<Rightarrow> Inl TypeError
             | Some b \<Rightarrow>
                 (let n1 = n\<lparr>submitButton :=
                                Some (b\<lparr>disabled := True, textContent := ''Submitting...''\<rparr>)\<rparr>;
                      n2 = n1\<lparr>posted := posted n1 @
                                [[(''contact[email]'', email), (''contact[tags]'', ''drop-notify'')]]\<rparr>
                  in case outcome of
                       Resolved code \<Rightarrow>
                         Inr (n2\<lparr>form := map_option (\<lambda>_. ''none'') (form n2),
                                 successMessage :=
                                   map_option (\<lambda>_. ''flex'') (successMessage n2)\<rparr>)
                     | Rejected \<Rightarrow>
                         Inr (n2\<lparr>console := console n2 @ [''Error submitting notify form:''],
                                 submitButton :=
                                   map_option
                                     (\<lambda>b'. b'\<lparr>disabled := False, textContent := ''Notify Me''\<rparr>)
                                     (submitButton n2)\<rparr>))))"

subsection \<open>The status rule as the specification words it\<close>

text \<open>
  The specification's DropWindow has two optional instants. A field that is \<open>null\<close>, and
  one whose Date could not be parsed, both count as an absent instant.
\<close>

fun instant :: "jsdate option \<Rightarrow> int option" where
  "instant None = None"
| "instant (Some (Date t)) = Some t"
| "instant (Some InvalidDate) = None"

text \<open>
  \<open>statusOf\<close>: Upcoming if the start instant is present and \<open>now\<close> is before it,
  else Live if the end instant is present and \<open>now\<close> is before it, else Ended.
\<close>

definition statusOf :: "int \<Rightarrow> int option \<Rightarrow> int option \<Rightarrow> status" where
  "statusOf now startInstant endInstant =
     (if (case startInstant of None \<Rightarrow> False | Some t \<Rightarrow> now < t) then upcoming
      else if (case endInstant of None \<Rightarrow> False | Some t \<Rightarrow> now < t) then live
      else ended)"

text \<open>The order Upcoming < Live < Ended.\<close>

fun status_rank :: "status \<Rightarrow> nat" where
  "status_rank upcoming = 0"
| "status_rank live = 1"
| "status_rank ended = 2"

section \<open>Properties\<close>

subsection \<open>The derived status\<close>

lemma before_instant:
  "before now d = (case instant d of None \<Rightarrow> False | Some t \<Rightarrow> now < t)"
  by (cases d rule: instant.cases) simp_all

lemma before_mono: "before now' d \<Longrightarrow> now \<le> now' \<Longrightarrow> before now d"
  by (cases d rule: instant.cases) simp_all

lemma updateStatus_status:
  "data_status (fst (updateStatus d p now)) =
     Some (if before now (startDate d) then upcoming
           else if before now (endDate d) then live else ended)"
  by (simp add: updateStatus_def Let_def)

text \<open>
  C1: the status is a function of \<open>now\<close> and the two optional instants alone, always one
  of the three values, given by the three-way rule; \<open>getStatus\<close> of DropCountdown and the
  status that \<open>updateStatus\<close> of DropStatus computes (and stores in \<open>data-status\<close>) both
  follow that rule, and agree on every window and every instant.
\<close>

theorem status_rule:
  "getStatus c now = statusOf now (instant (startDate c)) (instant (endDate c))
   \<and> data_status (fst (updateStatus d p now)) =
       Some (statusOf now (instant (startDate d)) (instant (endDate d)))
   \<and> data_status (fst (updateStatus (d\<lparr>startDate := startDate c, endDate := endDate c\<rparr>) p now)) =
       Some (getStatus c now)
   \<and> getStatus c now \<in> {upcoming, live, ended}"
proof -
  have "getStatus c now \<in> {upcoming, live, ended}"
    by (cases "getStatus c now") simp_all
  then show ?thesis
    by (simp add: updateStatus_status statusOf_def before_instant)
qed

text \<open>
  C2 claims that a window with a start and no end is Live from its start on. It is not:
  with start 1000 and no end, both components compute Ended at 2000.
\<close>

theorem started_without_end_not_live:
  "getStatus ((new_DropCountdown {} 0)\<lparr>startDate := Some (Date 1000)\<rparr>) 2000 = ended
   \<and> data_status
        (fst (updateStatus \<lparr>startDate = Some (Date 1000), endDate = None, data_status = None\<rparr>
                \<lparr>statusBadge = None, addButton = None, notifySection = None\<rparr> 2000)) = Some ended"
  by (simp add: new_DropCountdown_def updateStatus_status)

text \<open>
  C2, amended: for every window whose end instant is absent and whose start instant is
  present, and every \<open>now\<close> at or after the start, the derived status is Ended, in
  DropCountdown and in DropStatus: Live needs an end instant that is still ahead.
\<close>

theorem started_without_end_is_ended:
  assumes "startDate c = Some (Date t)" and "endDate c = None"
    and "startDate d = Some (Date t)" and "endDate d = None"
    and "t \<le> now"
  shows "getStatus c now = ended \<and> data_status (fst (updateStatus d p now)) = Some ended"
  using assms by (simp add: updateStatus_status)

theorem started_without_end_is_ended_witness:
  "getStatus ((new_DropCountdown {} 0)\<lparr>startDate := Some (Date 1000)\<rparr>) 1000 = ended
   \<and> data_status
        (fst (updateStatus
                \<lparr>startDate = Some (Date 1000), endDate = None, data_status = Some upcoming\<rparr>
                \<lparr>statusBadge = None, addButton = None, notifySection = None\<rparr> 1000)) = Some ended"
  using started_without_end_is_ended
    [of "(new_DropCountdown {} 0)\<lparr>startDate := Some (Date 1000)\<rparr>" 1000
        "\<lparr>startDate = Some (Date 1000), endDate = None, data_status = Some upcoming\<rparr>" 1000
        "\<lparr>statusBadge = None, addButton = None, notifySection = None\<rparr>"]
  by (simp add: new_DropCountdown_def)

text \<open>
  C4: for a window with both instants, the start before the end, the status never
  decreases as \<open>now\<close> grows (Upcoming < Live < Ended), and from the end instant on it is
  Ended at every later instant.
\<close>

theorem status_monotone:
  assumes "startDate c = Some (Date a)" and "endDate c = Some (Date b)" and "a < b"
    and "now \<le> now'"
  shows "status_rank (getStatus c now) \<le> status_rank (getStatus c now')
         \<and> (b \<le> now \<longrightarrow> getStatus c now = ended \<and> getStatus c now' = ended)"
  using assms by simp

theorem status_monotone_witness:
  "status_rank (getStatus ((new_DropCountdown {} 0)
       \<lparr>startDate := Some (Date 1000), endDate := Some (Date 2000)\<rparr>) 500)
     \<le> status_rank (getStatus ((new_DropCountdown {} 0)
          \<lparr>startDate := Some (Date 1000), endDate := Some (Date 2000)\<rparr>) 1500)
   \<and> getStatus ((new_DropCountdown {} 0)
        \<lparr>startDate := Some (Date 1000), endDate := Some (Date 2000)\<rparr>) 2000 = ended
   \<and> getStatus ((new_DropCountdown {} 0)
        \<lparr>startDate := Some (Date 1000), endDate := Some (Date 2000)\<rparr>) 2500 = ended"
  using status_monotone
    [of "(new_DropCountdown {} 0)\<lparr>startDate := Some (Date 1000), endDate := Some (Date 2000)\<rparr>"
        1000 2000 500 1500]
    status_monotone
    [of "(new_DropCountdown {} 0)\<lparr>startDate := Some (Date 1000), endDate := Some (Date 2000)\<rparr>"
        1000 2000 2000 2500]
  by (simp add: new_DropCountdown_def)

subsection \<open>Rendering and the tick\<close>

lemma mod_div_split:
  fixes x b c :: int
  assumes "0 < b" and "0 \<le> c"
  shows "x mod (b * c) div b = x div b mod c"
proof -
  have "x mod (b * c) = b * (x div b mod c) + x mod b"
    using assms(2) by (rule zmod_zmult2_eq)
  moreover have "(b * (x div b mod c) + x mod b) div b = x div b mod c"
    using assms(1) by simp
  ultimately show ?thesis by simp
qed

lemma whole_seconds:
  fixes D :: int
  shows "((D div (1000 * 60 * 60 * 24) * 24 + D mod (1000 * 60 * 60 * 24) div (1000 * 60 * 60)) * 60
           + D mod (1000 * 60 * 60) div (1000 * 60)) * 60 + D mod (1000 * 60) div 1000 = D div 1000"
proof -
  define x where "x = D div 1000"
  define y where "y = x div 60"
  define z where "z = y div 60"
  have m1: "D div (1000 * 60) = y"
    unfolding y_def x_def by (rule zdiv_zmult2_eq) simp
  have h1: "D div (1000 * 60 * 60) = z"
  proof -
    have "D div (1000 * 60 * 60) = D div (1000 * 60) div 60"
      by (rule zdiv_zmult2_eq) simp
    then show ?thesis by (simp only: m1 z_def)
  qed
  have d1: "D div (1000 * 60 * 60 * 24) = z div 24"
  proof -
    have "D div (1000 * 60 * 60 * 24) = D div (1000 * 60 * 60) div 24"
      by (rule zdiv_zmult2_eq) simp
    then show ?thesis by (simp only: h1)
  qed
  have h: "D mod (1000 * 60 * 60 * 24) div (1000 * 60 * 60) = z mod 24"
  proof -
    have "D mod (1000 * 60 * 60 * 24) div (1000 * 60 * 60) = D div (1000 * 60 * 60) mod 24"
      by (rule mod_div_split) simp_all
    then show ?thesis by (simp only: h1)
  qed
  have m: "D mod (1000 * 60 * 60) div (1000 * 60) = y mod 60"
  proof -
    have "D mod (1000 * 60 * 60) div (1000 * 60) = D div (1000 * 60) mod 60"
      by (rule mod_div_split) simp_all
    then show ?thesis by (simp only: m1)
  qed
  have s: "D mod (1000 * 60) div 1000 = x mod 60"
    unfolding x_def by (rule mod_div_split) simp_all
  have "((z div 24 * 24 + z mod 24) * 60 + y mod 60) * 60 + x mod 60 = x"
    by (simp add: y_def z_def)
  then show ?thesis
    by (simp only: d1 h m s x_def)
qed

lemma animateValue_eq: "animateValue el newValue = newValue"
  by (simp add: animateValue_def)

lemma setValues_eq:
  "setValues a b c d s =
     s\<lparr>daysEl := map_option (\<lambda>_. padZero a) (daysEl s),
       hoursEl := map_option (\<lambda>_. padZero b) (hoursEl s),
       minutesEl := map_option (\<lambda>_. padZero c) (minutesEl s),
       secondsEl := map_option (\<lambda>_. padZero d) (secondsEl s)\<rparr>"
  by (simp add: setValues_def animateValue_eq)

lemma nat_toString_digit: "n < 10 \<Longrightarrow> nat_toString n = [digit_char n]"
  by (simp add: nat_toString.simps)

lemma nat_toString_nonempty: "nat_toString n \<noteq> []"
  by (subst nat_toString.simps) simp

lemma nat_toString_long: "10 \<le> n \<Longrightarrow> 2 \<le> length (nat_toString n)"
proof -
  assume "10 \<le> n"
  then have "nat_toString n = nat_toString (n div 10) @ [digit_char (n mod 10)]"
    by (subst nat_toString.simps) simp
  moreover have "1 \<le> length (nat_toString (n div 10))"
    using nat_toString_nonempty [of "n div 10"] by (cases "nat_toString (n div 10)") simp_all
  ultimately show ?thesis by simp
qed

lemma padZero_digit: "0 \<le> n \<Longrightarrow> n \<le> 9 \<Longrightarrow> padZero (Num n) = [CHR ''0'', digit_char (nat n)]"
  by (simp add: padZero_def padStart_def nat_toString_digit)

lemma padZero_unpadded: "10 \<le> n \<Longrightarrow> padZero (Num n) = toString (Num n)"
  using nat_toString_long [of "nat n"] by (simp add: padZero_def padStart_def)

lemma padZero_0: "padZero (Num 0) = ''00''"
  by (simp add: padZero_digit digit_char_def)

lemma update_counting:
  assumes "getStatus s now \<noteq> ended"
    and "(if getStatus s now = upcoming then startDate s else endDate s) = Some (Date t)"
  shows "0 < t - now \<and> update s now =
     setValues (Num ((t - now) div (1000 * 60 * 60 * 24)))
               (Num ((t - now) mod (1000 * 60 * 60 * 24) div (1000 * 60 * 60)))
               (Num ((t - now) mod (1000 * 60 * 60) div (1000 * 60)))
               (Num ((t - now) mod (1000 * 60) div 1000)) s"
  using assms by (auto simp: update_def Let_def split: if_splits)

lemma events_setValues: "events (setValues a b c d s) = events s"
  by (simp add: setValues_def)

lemma events_showEnded: "events (showEnded s) = events s"
  by (simp add: showEnded_def clearInterval_def events_setValues split: option.splits)

lemma update_events: "events (update s now) = events s"
proof (cases "getStatus s now = ended")
  case True
  then show ?thesis by (simp add: update_def events_showEnded)
next
  case False
  show ?thesis
  proof (cases "if getStatus s now = upcoming then startDate s else endDate s")
    case None
    with False show ?thesis by (auto simp: update_def Let_def events_showEnded)
  next
    case (Some d)
    show ?thesis
    proof (cases d)
      case (Date t)
      with Some False have "update s now = setValues (Num ((t - now) div (1000 * 60 * 60 * 24)))
               (Num ((t - now) mod (1000 * 60 * 60 * 24) div (1000 * 60 * 60)))
               (Num ((t - now) mod (1000 * 60 * 60) div (1000 * 60)))
               (Num ((t - now) mod (1000 * 60) div 1000)) s"
        using update_counting [of s now t] by simp
      then show ?thesis by (simp add: events_setValues)
    next
      case InvalidDate
      with Some False show ?thesis
        by (auto simp: update_def Let_def events_setValues events_showEnded split: if_splits)
    qed
  qed
qed

lemma events_tick: "events (tick i s now) = events s"
  by (simp add: tick_def update_events)

lemma events_run: "events (run i s nows) = events s"
  by (induction nows arbitrary: s) (simp_all add: events_tick)

lemma showEnded_twice: "showEnded (showEnded s) = showEnded s"
  by (cases "intervalId s")
     (simp_all add: showEnded_def setValues_eq clearInterval_def option.map_comp comp_def)

lemma disconnect_after_ended: "disconnectedCallback (showEnded s) = showEnded s"
  by (cases "intervalId s")
     (simp_all add: showEnded_def disconnectedCallback_def setValues_eq clearInterval_def)

lemma disconnect_twice: "disconnectedCallback (disconnectedCallback s) = disconnectedCallback s"
  by (cases "intervalId s") (simp_all add: disconnectedCallback_def clearInterval_def)

lemma showEnded_fields:
  "daysEl (showEnded s) = map_option (\<lambda>_. ''00'') (daysEl s)"
  "hoursEl (showEnded s) = map_option (\<lambda>_. ''00'') (hoursEl s)"
  "minutesEl (showEnded s) = map_option (\<lambda>_. ''00'') (minutesEl s)"
  "secondsEl (showEnded s) = map_option (\<lambda>_. ''00'') (secondsEl s)"
  "endedClass (showEnded s)"
  by (cases "intervalId s";
      simp add: showEnded_def setValues_eq clearInterval_def padZero_0)+

text \<open>
  C8: while the status is Upcoming or Live the tick renders \<open>diff = target - now\<close>
  split by floor division into days, hours within the day, minutes within the hour and
  seconds within the minute, which together count the whole seconds of \<open>diff\<close> and
  drop the milliseconds; 90,061,001 ms gives 1, 1, 1, 1. \<open>padZero\<close> renders 0 to 9 as
  a zero followed by the digit (5 as "05") and a value of 10 or more as its decimal
  digits alone (42 as "42").
\<close>

theorem decomposition_and_padding:
  fixes t now n :: int
  defines "diff \<equiv> t - now"
  assumes "getStatus s now \<noteq> ended"
    and "(if getStatus s now = upcoming then startDate s else endDate s) = Some (Date t)"
    and "0 \<le> n"
  shows "update s now =
           setValues (Num (diff div (1000 * 60 * 60 * 24)))
                     (Num (diff mod (1000 * 60 * 60 * 24) div (1000 * 60 * 60)))
                     (Num (diff mod (1000 * 60 * 60) div (1000 * 60)))
                     (Num (diff mod (1000 * 60) div 1000)) s
         \<and> ((diff div (1000 * 60 * 60 * 24) * 24
               + diff mod (1000 * 60 * 60 * 24) div (1000 * 60 * 60)) * 60
               + diff mod (1000 * 60 * 60) div (1000 * 60)) * 60
               + diff mod (1000 * 60) div 1000 = diff div 1000
         \<and> (diff = 90061001 \<longrightarrow> update s now = setValues (Num 1) (Num 1) (Num 1) (Num 1) s)
         \<and> (n \<le> 9 \<longrightarrow> padZero (Num n) = [CHR ''0'', digit_char (nat n)])
         \<and> (10 \<le> n \<longrightarrow> padZero (Num n) = toString (Num n))
         \<and> padZero (Num 5) = ''05'' \<and> padZero (Num 42) = ''42''"
proof -
  have u: "update s now =
           setValues (Num (diff div (1000 * 60 * 60 * 24)))
                     (Num (diff mod (1000 * 60 * 60 * 24) div (1000 * 60 * 60)))
                     (Num (diff mod (1000 * 60 * 60) div (1000 * 60)))
                     (Num (diff mod (1000 * 60) div 1000)) s"
    unfolding diff_def using update_counting [OF assms(2,3)] by simp
  have w: "((diff div (1000 * 60 * 60 * 24) * 24
               + diff mod (1000 * 60 * 60 * 24) div (1000 * 60 * 60)) * 60
               + diff mod (1000 * 60 * 60) div (1000 * 60)) * 60
               + diff mod (1000 * 60) div 1000 = diff div 1000"
    by (rule whole_seconds)
  have e: "diff = 90061001 \<longrightarrow> update s now = setValues (Num 1) (Num 1) (Num 1) (Num 1) s"
  proof
    assume "diff = 90061001"
    with u show "update s now = setValues (Num 1) (Num 1) (Num 1) (Num 1) s" by simp
  qed
  have p: "n \<le> 9 \<longrightarrow> padZero (Num n) = [CHR ''0'', digit_char (nat n)]"
    using \<open>0 \<le> n\<close> by (simp add: padZero_digit)
  have q: "10 \<le> n \<longrightarrow> padZero (Num n) = toString (Num n)"
    by (simp add: padZero_unpadded)
  have "padZero (Num 5) = ''05''"
    by (simp add: padZero_digit digit_char_def)
  moreover have "padZero (Num 42) = ''42''"
    by (simp add: padZero_def padStart_def nat_toString.simps digit_char_def)
  ultimately show ?thesis using u w e p q by blast
qed

theorem decomposition_and_padding_witness:
  "getStatus ((new_DropCountdown {} 0)\<lparr>startDate := Some (Date 90061001), daysEl := Some ''--'',
       hoursEl := Some ''--'', minutesEl := Some ''--'', secondsEl := Some ''--''\<rparr>) 0 = upcoming
   \<and> update ((new_DropCountdown {} 0)\<lparr>startDate := Some (Date 90061001), daysEl := Some ''--'',
       hoursEl := Some ''--'', minutesEl := Some ''--'', secondsEl := Some ''--''\<rparr>) 0
     = (new_DropCountdown {} 0)\<lparr>startDate := Some (Date 90061001), daysEl := Some ''01'',
       hoursEl := Some ''01'', minutesEl := Some ''01'', secondsEl := Some ''01''\<rparr>
   \<and> padZero (Num 7) = ''07''"
  using decomposition_and_padding
    [of "(new_DropCountdown {} 0)\<lparr>startDate := Some (Date 90061001), daysEl := Some ''--'',
       hoursEl := Some ''--'', minutesEl := Some ''--'', secondsEl := Some ''--''\<rparr>" 0 90061001 7]
  by (simp add: new_DropCountdown_def setValues_eq padZero_digit digit_char_def)

subsection \<open>The ended presentation\<close>

text \<open>
  C9: \<open>showEnded\<close> is idempotent: a second call leaves the state of the first, in which
  every digit slot that exists reads "00". No statement of it can throw, so the model has
  no error result. \<open>disconnectedCallback\<close> after \<open>showEnded\<close> finds no interval id and
  changes nothing, and a second \<open>disconnectedCallback\<close> clears an id that names no
  active timer, which changes nothing either.
\<close>

theorem ended_handler_idempotent:
  "showEnded (showEnded s) = showEnded s
   \<and> daysEl (showEnded s) = map_option (\<lambda>_. ''00'') (daysEl s)
   \<and> hoursEl (showEnded s) = map_option (\<lambda>_. ''00'') (hoursEl s)
   \<and> minutesEl (showEnded s) = map_option (\<lambda>_. ''00'') (minutesEl s)
   \<and> secondsEl (showEnded s) = map_option (\<lambda>_. ''00'') (secondsEl s)
   \<and> disconnectedCallback (showEnded s) = showEnded s
   \<and> disconnectedCallback (disconnectedCallback s) = disconnectedCallback s"
  by (simp only: showEnded_twice showEnded_fields disconnect_after_ended disconnect_twice simp_thms)

subsection \<open>The status-change event\<close>

lemma events_connectedCallback: "events (connectedCallback s m now) = events s"
  by (simp add: connectedCallback_def setInterval_def Let_def update_events)

lemma never_dispatches:
  "events (run i (connectedCallback (new_DropCountdown ts l) m now) nows) = []"
  by (simp add: events_run events_connectedCallback new_DropCountdown_def)

text \<open>
  C3 expects a \<open>drop-status-change\<close> event with status Live, once, when a window with
  start = now + 5000 ms and no end passes its start. The code dispatches none. Attached at
  0 with start 5000 and no end, the element is Upcoming; its interval fires at 1000, 2000,
  ..., 6000; the firing at 5000 finds the status Ended and shows the ended presentation;
  the list of dispatched events stays empty. (\<open>update\<close> reads the status and
  \<open>diff\<close> from the same \<open>now\<close>: Upcoming or Live means the target is ahead, so the
  branch \<open>diff \<le> 0\<close> that dispatches is never taken, as \<open>update_events\<close> and
  \<open>never_dispatches\<close> show for every state and every sequence of firings.)
\<close>

theorem start_only_window_never_notifies:
  "getStatus (connectedCallback (new_DropCountdown {} 0)
       \<lparr>data_startDate = Some (Date 5000), data_endDate = None, days_slot = Some ''--'',
        hours_slot = Some ''--'', minutes_slot = Some ''--'', seconds_slot = Some ''--''\<rparr> 0) 0 = upcoming
   \<and> run 1 (connectedCallback (new_DropCountdown {} 0)
       \<lparr>data_startDate = Some (Date 5000), data_endDate = None, days_slot = Some ''--'',
        hours_slot = Some ''--'', minutes_slot = Some ''--'', seconds_slot = Some ''--''\<rparr> 0)
       [1000, 2000, 3000, 4000, 5000, 6000]
     = \<lparr>startDate = Some (Date 5000), endDate = None, intervalId = None,
        daysEl = Some ''00'', hoursEl = Some ''00'', minutesEl = Some ''00'', secondsEl = Some ''00'',
        endedClass = True, events = [], timers = {}, lastTimerId = 1\<rparr>"
  by (simp add: connectedCallback_def new_DropCountdown_def update_def setInterval_def tick_def
        showEnded_def clearInterval_def setValues_eq padZero_digit digit_char_def Let_def)

subsection \<open>Attaching and reaching Ended\<close>

lemma update_when_ended: "getStatus s now = ended \<Longrightarrow> update s now = showEnded s"
  by (simp add: update_def)

lemma update_dates:
  "startDate (update s now) = startDate s" "endDate (update s now) = endDate s"
  by (auto simp: update_def Let_def showEnded_def setValues_eq clearInterval_def dispatchEvent_def
        split: option.splits jsdate.splits)

lemma connectedCallback_dates:
  "startDate (connectedCallback s m now) = data_startDate m"
  "endDate (connectedCallback s m now) = data_endDate m"
  by (simp_all add: connectedCallback_def Let_def setInterval_def update_dates)

lemma getStatus_dates:
  "startDate s = startDate s' \<Longrightarrow> endDate s = endDate s' \<Longrightarrow> getStatus s now = getStatus s' now"
  by simp

lemma ended_later: "getStatus s now = ended \<Longrightarrow> now \<le> now' \<Longrightarrow> getStatus s now' = ended"
  using before_mono [of now' "startDate s" now] before_mono [of now' "endDate s" now]
  by (auto split: if_splits)

lemma showEnded_timer:
  "\<not> truthy_id (intervalId (showEnded s))"
  "intervalId s = Some i \<Longrightarrow> i \<noteq> 0 \<Longrightarrow> intervalId (showEnded s) = None \<and> i \<notin> timers (showEnded s)"
  by (cases "intervalId s"; simp add: showEnded_def setValues_eq clearInterval_def)+

lemma tick_inactive: "i \<notin> timers s \<Longrightarrow> tick i s now = s"
  by (simp add: tick_def)

lemma run_inactive: "i \<notin> timers s \<Longrightarrow> run i s nows = s"
  by (induction nows) (simp_all add: tick_inactive)

lemma ended_update:
  assumes "getStatus s now = ended"
  shows "update s now = showEnded s \<and> endedClass (update s now)
         \<and> daysEl (update s now) = map_option (\<lambda>_. ''00'') (daysEl s)
         \<and> hoursEl (update s now) = map_option (\<lambda>_. ''00'') (hoursEl s)
         \<and> minutesEl (update s now) = map_option (\<lambda>_. ''00'') (minutesEl s)
         \<and> secondsEl (update s now) = map_option (\<lambda>_. ''00'') (secondsEl s)
         \<and> \<not> truthy_id (intervalId (update s now))
         \<and> (intervalId s = Some i \<and> i \<noteq> 0 \<longrightarrow>
               intervalId (update s now) = None \<and> i \<notin> timers (update s now)
               \<and> run i (update s now) nows = update s now)"
  using assms
  by (simp add: update_when_ended showEnded_fields showEnded_timer run_inactive)

lemma ended_attach:
  assumes cfg: "data_startDate m \<noteq> None \<or> data_endDate m \<noteq> None"
    and st: "getStatus (connectedCallback s m now) now = ended"
    and later: "now \<le> now'"
  shows "endedClass (connectedCallback s m now)
         \<and> daysEl (connectedCallback s m now) = map_option (\<lambda>_. ''00'') (days_slot m)
         \<and> hoursEl (connectedCallback s m now) = map_option (\<lambda>_. ''00'') (hours_slot m)
         \<and> minutesEl (connectedCallback s m now) = map_option (\<lambda>_. ''00'') (minutes_slot m)
         \<and> secondsEl (connectedCallback s m now) = map_option (\<lambda>_. ''00'') (seconds_slot m)
         \<and> intervalId (connectedCallback s m now) = Some (Suc (lastTimerId s))
         \<and> Suc (lastTimerId s) \<in> timers (connectedCallback s m now)
         \<and> tick (Suc (lastTimerId s)) (connectedCallback s m now) now'
             = showEnded (connectedCallback s m now)
         \<and> intervalId (tick (Suc (lastTimerId s)) (connectedCallback s m now) now') = None
         \<and> Suc (lastTimerId s) \<notin> timers (tick (Suc (lastTimerId s)) (connectedCallback s m now) now')"
proof -
  let ?s2 = "s\<lparr>startDate := data_startDate m, endDate := data_endDate m,
                daysEl := days_slot m, hoursEl := hours_slot m,
                minutesEl := minutes_slot m, secondsEl := seconds_slot m\<rparr>"
  let ?a = "connectedCallback s m now"
  let ?i = "Suc (lastTimerId s)"
  have a: "?a = setInterval (update ?s2 now)"
    using cfg by (auto simp: connectedCallback_def Let_def)
  have "getStatus ?s2 now = getStatus ?a now"
    by (rule getStatus_dates) (simp_all add: connectedCallback_dates)
  with st have "getStatus ?s2 now = ended"
    by (simp only:)
  then have u: "update ?s2 now = showEnded ?s2"
    by (rule update_when_ended)
  have l: "lastTimerId (showEnded ?s2) = lastTimerId s"
    by (cases "intervalId s") (simp_all add: showEnded_def setValues_eq clearInterval_def)
  have i: "intervalId ?a = Some ?i" and t: "?i \<in> timers ?a"
    by (simp_all add: a u setInterval_def Let_def l)
  have f: "endedClass ?a"
    "daysEl ?a = map_option (\<lambda>_. ''00'') (days_slot m)"
    "hoursEl ?a = map_option (\<lambda>_. ''00'') (hours_slot m)"
    "minutesEl ?a = map_option (\<lambda>_. ''00'') (minutes_slot m)"
    "secondsEl ?a = map_option (\<lambda>_. ''00'') (seconds_slot m)"
    by (simp_all add: a u setInterval_def Let_def showEnded_fields)
  have "getStatus ?a now' = ended"
    using st later by (rule ended_later)
  then have k: "tick ?i ?a now' = showEnded ?a"
    using t by (simp add: tick_def update_when_ended)
  have "intervalId (showEnded ?a) = None \<and> ?i \<notin> timers (showEnded ?a)"
    using i by (rule showEnded_timer(2)) simp
  with i t f k show ?thesis by simp
qed

lemma inert_attach:
  assumes "data_startDate m = None" and "data_endDate m = None"
  shows "connectedCallback s m now = s\<lparr>startDate := None, endDate := None\<rparr>"
  using assms by (simp add: connectedCallback_def)

text \<open>
  C5 claims that an element whose status is Ended when it is attached returns without
  scheduling a recurring tick. It does schedule one: attached at 2000 with an end of 1000
  and no start, the element is Ended and shows the ended presentation, and then holds
  interval 1, which is active.
\<close>

theorem attach_when_ended_schedules_tick:
  "getStatus (connectedCallback (new_DropCountdown {} 0)
       \<lparr>data_startDate = None, data_endDate = Some (Date 1000), days_slot = Some ''--'',
        hours_slot = Some ''--'', minutes_slot = Some ''--'', seconds_slot = Some ''--''\<rparr> 2000)
     2000 = ended
   \<and> connectedCallback (new_DropCountdown {} 0)
       \<lparr>data_startDate = None, data_endDate = Some (Date 1000), days_slot = Some ''--'',
        hours_slot = Some ''--'', minutes_slot = Some ''--'', seconds_slot = Some ''--''\<rparr> 2000
     = \<lparr>startDate = None, endDate = Some (Date 1000), intervalId = Some 1,
        daysEl = Some ''00'', hoursEl = Some ''00'', minutesEl = Some ''00'', secondsEl = Some ''00'',
        endedClass = True, events = [], timers = {1}, lastTimerId = 1\<rparr>"
  by (simp add: connectedCallback_def new_DropCountdown_def update_def setInterval_def
        showEnded_def setValues_eq padZero_0 Let_def)

text \<open>
  C5, amended. An \<open>update\<close> that finds the status Ended, at attach or on a tick, is
  \<open>showEnded\<close>: it sets the ended class and writes "00" to every digit slot that
  exists, and leaves no truthy interval id; an interval the element held is cleared and
  never fires again. When the element is attached with at least one of the two dates and
  is Ended at once, \<open>connectedCallback\<close> shows the ended presentation and creates the
  interval all the same; the first firing of that interval finds Ended again and clears
  it. With neither date \<open>connectedCallback\<close> returns after storing the two
  \<open>null\<close>s: nothing is rendered and nothing is scheduled.
  A status other than Ended always has its target date, so the branch of \<open>update\<close>
  for a missing target is never taken.
\<close>

theorem ended_presentation:
  "(getStatus s now = ended \<longrightarrow>
      update s now = showEnded s \<and> endedClass (update s now)
      \<and> daysEl (update s now) = map_option (\<lambda>_. ''00'') (daysEl s)
      \<and> hoursEl (update s now) = map_option (\<lambda>_. ''00'') (hoursEl s)
      \<and> minutesEl (update s now) = map_option (\<lambda>_. ''00'') (minutesEl s)
      \<and> secondsEl (update s now) = map_option (\<lambda>_. ''00'') (secondsEl s)
      \<and> \<not> truthy_id (intervalId (update s now))
      \<and> (intervalId s = Some i \<and> i \<noteq> 0 \<longrightarrow>
            intervalId (update s now) = None \<and> i \<notin> timers (update s now)
            \<and> run i (update s now) nows = update s now))
   \<and> ((data_startDate m \<noteq> None \<or> data_endDate m \<noteq> None)
        \<and> getStatus (connectedCallback s0 m now0) now0 = ended \<and> now0 \<le> now1 \<longrightarrow>
      endedClass (connectedCallback s0 m now0)
      \<and> daysEl (connectedCallback s0 m now0) = map_option (\<lambda>_. ''00'') (days_slot m)
      \<and> hoursEl (connectedCallback s0 m now0) = map_option (\<lambda>_. ''00'') (hours_slot m)
      \<and> minutesEl (connectedCallback s0 m now0) = map_option (\<lambda>_. ''00'') (minutes_slot m)
      \<and> secondsEl (connectedCallback s0 m now0) = map_option (\<lambda>_. ''00'') (seconds_slot m)
      \<and> intervalId (connectedCallback s0 m now0) = Some (Suc (lastTimerId s0))
      \<and> Suc (lastTimerId s0) \<in> timers (connectedCallback s0 m now0)
      \<and> tick (Suc (lastTimerId s0)) (connectedCallback s0 m now0) now1
          = showEnded (connectedCallback s0 m now0)
      \<and> intervalId (tick (Suc (lastTimerId s0)) (connectedCallback s0 m now0) now1) = None
      \<and> Suc (lastTimerId s0)
          \<notin> timers (tick (Suc (lastTimerId s0)) (connectedCallback s0 m now0) now1))
   \<and> (data_startDate m = None \<and> data_endDate m = None \<longrightarrow>
        connectedCallback s0 m now0 = s0\<lparr>startDate := None, endDate := None\<rparr>)
   \<and> (getStatus s now \<noteq> ended \<longrightarrow>
        (if getStatus s now = upcoming then startDate s else endDate s) \<noteq> None)"
proof -
  have 1: "getStatus s now = ended \<longrightarrow>
      update s now = showEnded s \<and> endedClass (update s now)
      \<and> daysEl (update s now) = map_option (\<lambda>_. ''00'') (daysEl s)
      \<and> hoursEl (update s now) = map_option (\<lambda>_. ''00'') (hoursEl s)
      \<and> minutesEl (update s now) = map_option (\<lambda>_. ''00'') (minutesEl s)
      \<and> secondsEl (update s now) = map_option (\<lambda>_. ''00'') (secondsEl s)
      \<and> \<not> truthy_id (intervalId (update s now))
      \<and> (intervalId s = Some i \<and> i \<noteq> 0 \<longrightarrow>
            intervalId (update s now) = None \<and> i \<notin> timers (update s now)
            \<and> run i (update s now) nows = update s now)"
    using ended_update [of s now i nows] by (rule impI)
  have 2: "(data_startDate m \<noteq> None \<or> data_endDate m \<noteq> None)
        \<and> getStatus (connectedCallback s0 m now0) now0 = ended \<and> now0 \<le> now1 \<longrightarrow>
      endedClass (connectedCallback s0 m now0)
      \<and> daysEl (connectedCallback s0 m now0) = map_option (\<lambda>_. ''00'') (days_slot m)
      \<and> hoursEl (connectedCallback s0 m now0) = map_option (\<lambda>_. ''00'') (hours_slot m)
      \<and> minutesEl (connectedCallback s0 m now0) = map_option (\<lambda>_. ''00'') (minutes_slot m)
      \<and> secondsEl (connectedCallback s0 m now0) = map_option (\<lambda>_. ''00'') (seconds_slot m)
      \<and> intervalId (connectedCallback s0 m now0) = Some (Suc (lastTimerId s0))
      \<and> Suc (lastTimerId s0) \<in> timers (connectedCallback s0 m now0)
      \<and> tick (Suc (lastTimerId s0)) (connectedCallback s0 m now0) now1
          = showEnded (connectedCallback s0 m now0)
      \<and> intervalId (tick (Suc (lastTimerId s0)) (connectedCallback s0 m now0) now1) = None
      \<and> Suc (lastTimerId s0)
          \<notin> timers (tick (Suc (lastTimerId s0)) (connectedCallback s0 m now0) now1)"
    using ended_attach [of m s0 now0 now1] by blast
  have 3: "data_startDate m = None \<and> data_endDate m = None \<longrightarrow>
        connectedCallback s0 m now0 = s0\<lparr>startDate := None, endDate := None\<rparr>"
    by (simp add: inert_attach)
  have 4: "getStatus s now \<noteq> ended \<longrightarrow>
        (if getStatus s now = upcoming then startDate s else endDate s) \<noteq> None"
    by (cases "startDate s"; cases "endDate s") simp_all
  from 1 2 3 4 show ?thesis by (intro conjI)
qed

theorem ended_presentation_witness:
  "update \<lparr>startDate = None, endDate = Some (Date 1000), intervalId = Some 1,
        daysEl = Some ''00'', hoursEl = Some ''00'', minutesEl = Some ''00'', secondsEl = Some ''01'',
        endedClass = False, events = [], timers = {1}, lastTimerId = 1\<rparr> 1000
     = \<lparr>startDate = None, endDate = Some (Date 1000), intervalId = None,
        daysEl = Some ''00'', hoursEl = Some ''00'', minutesEl = Some ''00'', secondsEl = Some ''00'',
        endedClass = True, events = [], timers = {}, lastTimerId = 1\<rparr>
   \<and> run 1 (update \<lparr>startDate = None, endDate = Some (Date 1000), intervalId = Some 1,
        daysEl = Some ''00'', hoursEl = Some ''00'', minutesEl = Some ''00'', secondsEl = Some ''01'',
        endedClass = False, events = [], timers = {1}, lastTimerId = 1\<rparr> 1000) [2000, 3000]
     = \<lparr>startDate = None, endDate = Some (Date 1000), intervalId = None,
        daysEl = Some ''00'', hoursEl = Some ''00'', minutesEl = Some ''00'', secondsEl = Some ''00'',
        endedClass = True, events = [], timers = {}, lastTimerId = 1\<rparr>
   \<and> intervalId (connectedCallback (new_DropCountdown {} 0)
       \<lparr>data_startDate = None, data_endDate = Some (Date 1000), days_slot = Some ''--'',
        hours_slot = Some ''--'', minutes_slot = Some ''--'', seconds_slot = Some ''--''\<rparr> 2000)
     = Some 1
   \<and> intervalId (tick 1 (connectedCallback (new_DropCountdown {} 0)
       \<lparr>data_startDate = None, data_endDate = Some (Date 1000), days_slot = Some ''--'',
        hours_slot = Some ''--'', minutes_slot = Some ''--'', seconds_slot = Some ''--''\<rparr> 2000) 3000)
     = None"
  using ended_presentation
    [of "\<lparr>startDate = None, endDate = Some (Date 1000), intervalId = Some 1,
        daysEl = Some ''00'', hoursEl = Some ''00'', minutesEl = Some ''00'', secondsEl = Some ''01'',
        endedClass = False, events = [], timers = {1}, lastTimerId = 1\<rparr>" 1000 1 "[2000, 3000]"
        "\<lparr>data_startDate = None, data_endDate = Some (Date 1000), days_slot = Some ''--'',
        hours_slot = Some ''--'', minutes_slot = Some ''--'', seconds_slot = Some ''--''\<rparr>"
        "new_DropCountdown {} 0" 2000 3000]
  by (simp add: new_DropCountdown_def update_def showEnded_def setValues_eq padZero_0
        clearInterval_def connectedCallback_def setInterval_def tick_def Let_def)

subsection \<open>The status display\<close>

text \<open>
  C6: \<open>updateStatus\<close> gives the badge the label Coming Soon, Drop Live or Drop Ended
  for Upcoming, Live or Ended (and the class of the status); it enables the add button if
  and only if the status is Live, and labels the disabled button Coming Soon when Upcoming
  and Sold Out when Ended; it shows the notify section (display flex) if and only if the
  status is not Live, and hides it (display none) when Live. An element that the document
  lacks is skipped.
\<close>

theorem refresh_presentation:
  assumes "updateStatus d p now = (d', p')" and "data_status d' = Some st"
  shows "textMap upcoming = ''Coming Soon'' \<and> textMap live = ''Drop Live''
         \<and> textMap ended = ''Drop Ended''
         \<and> (\<forall>b. statusBadge p = Some b \<longrightarrow>
               statusBadge p' =
                 Some (b\<lparr>className := ''drop-status drop-status--'' @ status_name st,
                         textEl := map_option (\<lambda>_. textMap st) (textEl b)\<rparr>))
         \<and> (\<forall>a. addButton p = Some a \<longrightarrow>
               (\<exists>a'. addButton p' = Some a'
                  \<and> (\<not> disabled a' \<longleftrightarrow> st = live)
                  \<and> (st = upcoming \<longrightarrow> textContent a' = ''Coming Soon'')
                  \<and> (st = ended \<longrightarrow> textContent a' = ''Sold Out'')
                  \<and> (st = live \<longrightarrow> textContent a' = ''Add to Cart'')))
         \<and> (\<forall>x. notifySection p = Some x \<longrightarrow>
               notifySection p' = Some (if st = live then ''none'' else ''flex''))
         \<and> (statusBadge p = None \<longrightarrow> statusBadge p' = None)
         \<and> (addButton p = None \<longrightarrow> addButton p' = None)
         \<and> (notifySection p = None \<longrightarrow> notifySection p' = None)"
  using assms by (cases st) (auto simp: updateStatus_def Let_def split: if_splits)

theorem refresh_presentation_witness:
  "updateStatus \<lparr>startDate = Some (Date 1000), endDate = Some (Date 2000), data_status = None\<rparr>
     \<lparr>statusBadge = Some \<lparr>className = ''drop-status'', textEl = Some ''...''\<rparr>,
      addButton = Some \<lparr>disabled = False, textContent = ''Add'', disabledClass = False\<rparr>,
      notifySection = Some ''none''\<rparr> 500
   = (\<lparr>startDate = Some (Date 1000), endDate = Some (Date 2000), data_status = Some upcoming\<rparr>,
      \<lparr>statusBadge = Some \<lparr>className = ''drop-status drop-status--upcoming'',
                            textEl = Some ''Coming Soon''\<rparr>,
       addButton = Some \<lparr>disabled = True, textContent = ''Coming Soon'', disabledClass = True\<rparr>,
       notifySection = Some ''flex''\<rparr>)
   \<and> updateStatus \<lparr>startDate = Some (Date 1000), endDate = Some (Date 2000), data_status = None\<rparr>
     \<lparr>statusBadge = Some \<lparr>className = ''drop-status'', textEl = Some ''...''\<rparr>,
      addButton = Some \<lparr>disabled = False, textContent = ''Add'', disabledClass = False\<rparr>,
      notifySection = Some ''none''\<rparr> 1500
   = (\<lparr>startDate = Some (Date 1000), endDate = Some (Date 2000), data_status = Some live\<rparr>,
      \<lparr>statusBadge = Some \<lparr>className = ''drop-status drop-status--live'',
                            textEl = Some ''Drop Live''\<rparr>,
       addButton = Some \<lparr>disabled = False, textContent = ''Add to Cart'', disabledClass = False\<rparr>,
       notifySection = Some ''none''\<rparr>)
   \<and> updateStatus \<lparr>startDate = Some (Date 1000), endDate = Some (Date 2000), data_status = None\<rparr>
     \<lparr>statusBadge = Some \<lparr>className = ''drop-status'', textEl = Some ''...''\<rparr>,
      addButton = Some \<lparr>disabled = False, textContent = ''Add'', disabledClass = False\<rparr>,
      notifySection = Some ''none''\<rparr> 2500
   = (\<lparr>startDate = Some (Date 1000), endDate = Some (Date 2000), data_status = Some ended\<rparr>,
      \<lparr>statusBadge = Some \<lparr>className = ''drop-status drop-status--ended'',
                            textEl = Some ''Drop Ended''\<rparr>,
       addButton = Some \<lparr>disabled = True, textContent = ''Sold Out'', disabledClass = True\<rparr>,
       notifySection = Some ''flex''\<rparr>)"
  using refresh_presentation
    [of "\<lparr>startDate = Some (Date 1000), endDate = Some (Date 2000), data_status = None\<rparr>"
        "\<lparr>statusBadge = Some \<lparr>className = ''drop-status'', textEl = Some ''...''\<rparr>,
      addButton = Some \<lparr>disabled = False, textContent = ''Add'', disabledClass = False\<rparr>,
      notifySection = Some ''none''\<rparr>" 500
        "\<lparr>startDate = Some (Date 1000), endDate = Some (Date 2000), data_status = Some upcoming\<rparr>"
        "\<lparr>statusBadge = Some \<lparr>className = ''drop-status drop-status--upcoming'',
                            textEl = Some ''Coming Soon''\<rparr>,
       addButton = Some \<lparr>disabled = True, textContent = ''Coming Soon'', disabledClass = True\<rparr>,
       notifySection = Some ''flex''\<rparr>" upcoming]
  by (simp add: updateStatus_def)

subsection \<open>The notify form\<close>

text \<open>
  C7 claims that a failed submission restores the original label of the button. The
  handler writes the fixed text Notify Me: a button labelled Subscribe reads Notify Me
  after a rejected \<open>fetch\<close>.
\<close>

theorem failure_writes_fixed_label:
  "handleSubmit
     \<lparr>form = Some '''', input = Some ''a@b.com'',
      submitButton = Some \<lparr>disabled = False, textContent = ''Subscribe''\<rparr>,
      successMessage = Some ''none'', console = [], posted = []\<rparr> Rejected
   = Inr \<lparr>form = Some '''', input = Some ''a@b.com'',
          submitButton = Some \<lparr>disabled = False, textContent = ''Notify Me''\<rparr>,
          successMessage = Some ''none'', console = [''Error submitting notify form:''],
          posted = [[(''contact[email]'', ''a@b.com''), (''contact[tags]'', ''drop-notify'')]]\<rparr>"
  by (simp add: handleSubmit_def)

text \<open>
  C7, amended. For every non-empty email and an existing submit button: when \<open>fetch\<close>
  is fulfilled the form is hidden, the success message is shown, and the button stays
  disabled with the label Submitting... (nothing re-enables it); when \<open>fetch\<close> is
  rejected the button is enabled again with the fixed label Notify Me, the display of the
  form and of the success message is left as it was, and one line is written with
  \<open>console.error\<close>.
\<close>

theorem submit_outcomes:
  assumes "input n = Some email" and "email \<noteq> []" and "submitButton n = Some b"
  shows "handleSubmit n (Resolved code) =
           Inr (n\<lparr>submitButton := Some (b\<lparr>disabled := True, textContent := ''Submitting...''\<rparr>),
                  posted := posted n @
                    [[(''contact[email]'', email), (''contact[tags]'', ''drop-notify'')]],
                  form := map_option (\<lambda>_. ''none'') (form n),
                  successMessage := map_option (\<lambda>_. ''flex'') (successMessage n)\<rparr>)
         \<and> handleSubmit n Rejected =
           Inr (n\<lparr>submitButton := Some (b\<lparr>disabled := False, textContent := ''Notify Me''\<rparr>),
                  posted := posted n @
                    [[(''contact[email]'', email), (''contact[tags]'', ''drop-notify'')]],
                  console := console n @ [''Error submitting notify form:'']\<rparr>)"
  using assms by (simp add: handleSubmit_def)

theorem submit_outcomes_witness:
  "handleSubmit
     \<lparr>form = Some '''', input = Some ''a@b.com'',
      submitButton = Some \<lparr>disabled = False, textContent = ''Notify Me''\<rparr>,
      successMessage = Some ''none'', console = [], posted = []\<rparr> (Resolved 200)
   = Inr \<lparr>form = Some ''none'', input = Some ''a@b.com'',
          submitButton = Some \<lparr>disabled = True, textContent = ''Submitting...''\<rparr>,
          successMessage = Some ''flex'', console = [],
          posted = [[(''contact[email]'', ''a@b.com''), (''contact[tags]'', ''drop-notify'')]]\<rparr>
   \<and> handleSubmit
     \<lparr>form = Some '''', input = Some ''a@b.com'',
      submitButton = Some \<lparr>disabled = False, textContent = ''Notify Me''\<rparr>,
      successMessage = Some ''none'', console = [], posted = []\<rparr> Rejected
   = Inr \<lparr>form = Some '''', input = Some ''a@b.com'',
          submitButton = Some \<lparr>disabled = False, textContent = ''Notify Me''\<rparr>,
          successMessage = Some ''none'', console = [''Error submitting notify form:''],
          posted = [[(''contact[email]'', ''a@b.com''), (''contact[tags]'', ''drop-notify'')]]\<rparr>"
  using submit_outcomes
    [of "\<lparr>form = Some '''', input = Some ''a@b.com'',
      submitButton = Some \<lparr>disabled = False, textContent = ''Notify Me''\<rparr>,
      successMessage = Some ''none'', console = [], posted = []\<rparr>" "''a@b.com''"
      "\<lparr>disabled = False, textContent = ''Notify Me''\<rparr>" 200]
  by simp

text \<open>
  C10: the response of \<open>fetch\<close> is never read, so a response of any HTTP status takes
  the success path: with status 500 the form is hidden and the success message shown, as
  with 200. The failure path (the line written with \<open>console.error\<close>) is taken if and
  only if \<open>fetch\<close> is rejected.
\<close>

theorem response_status_ignored:
  assumes "input n = Some email" and "email \<noteq> []" and "submitButton n = Some b"
  shows "handleSubmit n (Resolved code) = handleSubmit n (Resolved 200)
         \<and> (\<exists>n'. handleSubmit n (Resolved 500) = Inr n'
               \<and> form n' = map_option (\<lambda>_. ''none'') (form n)
               \<and> successMessage n' = map_option (\<lambda>_. ''flex'') (successMessage n)
               \<and> map_option disabled (submitButton n') = Some True
               \<and> console n' = console n)
         \<and> (\<forall>n'. handleSubmit n outcome = Inr n' \<longrightarrow>
               (console n' \<noteq> console n \<longleftrightarrow> outcome = Rejected))"
  using assms by (cases outcome) (simp_all add: handleSubmit_def)

theorem response_status_ignored_witness:
  "handleSubmit
     \<lparr>form = Some ''block'', input = Some ''a@b.com'',
      submitButton = Some \<lparr>disabled = False, textContent = ''Notify Me''\<rparr>,
      successMessage = Some ''none'', console = [], posted = []\<rparr> (Resolved 500)
   = Inr \<lparr>form = Some ''none'', input = Some ''a@b.com'',
          submitButton = Some \<lparr>disabled = True, textContent = ''Submitting...''\<rparr>,
          successMessage = Some ''flex'', console = [],
          posted = [[(''contact[email]'', ''a@b.com''), (''contact[tags]'', ''drop-notify'')]]\<rparr>
   \<and> handleSubmit
     \<lparr>form = Some ''block'', input = Some ''a@b.com'',
      submitButton = Some \<lparr>disabled = False, textContent = ''Notify Me''\<rparr>,
      successMessage = Some ''none'', console = [], posted = []\<rparr> (Resolved 500)
   = handleSubmit
     \<lparr>form = Some ''block'', input = Some ''a@b.com'',
      submitButton = Some \<lparr>disabled = False, textContent = ''Notify Me''\<rparr>,
      successMessage = Some ''none'', console = [], posted = []\<rparr> (Resolved 200)"
  using response_status_ignored
    [of "\<lparr>form = Some ''block'', input = Some ''a@b.com'',
      submitButton = Some \<lparr>disabled = False, textContent = ''Notify Me''\<rparr>,
      successMessage = Some ''none'', console = [], posted = []\<rparr>" "''a@b.com''"
      "\<lparr>disabled = False, textContent = ''Notify Me''\<rparr>" 500 Rejected]
  by (simp add: handleSubmit_def)

end
